theory Spec2Isabelle
  imports Main
begin

section \<open>The signaling server: data model\<close>

text \<open>
  The model follows \<^verbatim>\<open>signaling-server.js\<close>. The two module-level objects
  \<^verbatim>\<open>users\<close> and \<^verbatim>\<open>activeCallSessions\<close> are plain objects (\<^verbatim>\<open>{}\<close>) used as
  dictionaries keyed by strings; each connected socket carries the two attributes the
  handlers attach to it, \<^verbatim>\<open>socket.role\<close> and \<^verbatim>\<open>socket.sessionId\<close>, both
  \<^verbatim>\<open>undefined\<close> (here \<open>None\<close>) until a handler assigns them.

  Modelling conventions:
  \<^item> an identity (\<^verbatim>\<open>role\<close>, \<^verbatim>\<open>from\<close>, \<^verbatim>\<open>to\<close>) is any string the client chooses;
  \<^item> the record field \<open>users\<close> holds the own properties of the object \<^verbatim>\<open>users\<close>. Reading
    \<^verbatim>\<open>users[k]\<close> follows the prototype chain: a key that is no own property but names a
    member of \<^verbatim>\<open>Object.prototype\<close> reads that member, which is truthy and equal to no
    socket id (\<open>users_get\<close>); writing \<^verbatim>\<open>users['__proto__']\<close> goes to the inherited setter,
    which ignores a string and stores nothing (\<open>users_set\<close>);
  \<^item> the keys of \<^verbatim>\<open>activeCallSessions\<close> that the handlers read and write are session ids
    built by the \<^verbatim>\<open>call\<close> handler; such an id ends in a digit and names no member of
    \<^verbatim>\<open>Object.prototype\<close> (\<open>session_id_not_inherited\<close>), so that object is its own keys;
  \<^item> \<^verbatim>\<open>socket.id\<close> is an opaque handle generated by the transport; it is never empty,
    so it is truthy;
  \<^item> \<^verbatim>\<open>Date.now()\<close> is an input of the \<^verbatim>\<open>call\<close> event;
  \<^item> \<^verbatim>\<open>io.to(id).emit(name, payload)\<close> and \<^verbatim>\<open>console.warn\<close> are recorded, in order,
    in the list of effects a handler returns; the \<^verbatim>\<open>console.log\<close> tracing lines have no
    influence on state or messages and are left out.
\<close>

type_synonym identity = string
type_synonym socket_id = nat
type_synonym payload = string

datatype status = Calling | Connected

record session =
  sfrom :: identity
  sto :: identity
  status :: status

record socket =
  role :: "identity option"
  sessionId :: "string option"

record state =
  users :: "identity \<rightharpoonup> socket_id"
  activeCallSessions :: "string \<rightharpoonup> session"
  sockets :: "socket_id \<Rightarrow> socket"

datatype message =
    IncomingCall identity payload
  | CallSessionInfo string
  | CallAnswered identity payload
  | IceCandidate identity payload
  | CallEnded identity
  | StartRecordingSignal identity
  | StopRecordingSignal identity

text \<open>
  What \<^verbatim>\<open>users[k]\<close> reads when it is not \<^verbatim>\<open>undefined\<close>: the socket id stored under the
  own key \<open>k\<close>, or the member of \<^verbatim>\<open>Object.prototype\<close> named \<open>k\<close>.
\<close>

datatype property = Own socket_id | Inherited string

text \<open>
  \<^verbatim>\<open>io.to(v).emit(name, payload)\<close>: for a socket id \<open>v\<close> the message goes to that socket
  (\<open>Emit\<close>); for an inherited member \<open>v\<close> the room holds no socket and the message reaches
  nobody (\<open>EmitInherited\<close>, with the name of the member).
\<close>

datatype effect =
    Emit socket_id message
  | EmitInherited string message
  | Warn string

datatype event =
    Register identity
  | Call identity identity payload nat
  | Answer identity identity payload
  | Ice identity identity payload
  | EndCall identity identity
  | StartRecordingRequest identity identity
  | StopRecordingRequest identity identity
  | Disconnect

definition init :: state where
  "init = \<lparr>users = Map.empty, activeCallSessions = Map.empty,
           sockets = (\<lambda>_. \<lparr>role = None, sessionId = None\<rparr>)\<rparr>"

section \<open>The object \<^verbatim>\<open>users\<close>\<close>

text \<open>The names of the members of \<^verbatim>\<open>Object.prototype\<close>, which every plain object inherits.\<close>

definition object_prototype_names :: "string list" where
  "object_prototype_names =
     [''constructor'', ''__defineGetter__'', ''__defineSetter__'', ''hasOwnProperty'',
      ''__lookupGetter__'', ''__lookupSetter__'', ''isPrototypeOf'', ''propertyIsEnumerable'',
      ''toString'', ''valueOf'', ''__proto__'', ''toLocaleString'']"

text \<open>\<^verbatim>\<open>users[k]\<close>, read: the own property first, then the prototype; \<open>None\<close> is \<^verbatim>\<open>undefined\<close>.\<close>

definition users_get :: "(identity \<rightharpoonup> socket_id) \<Rightarrow> identity \<Rightarrow> property option" where
  "users_get u k =
     (case u k of
        Some c \<Rightarrow> Some (Own c)
      | None \<Rightarrow> if k \<in> set object_prototype_names then Some (Inherited k) else None)"

text \<open>
  \<^verbatim>\<open>users[k] = socket.id\<close>: creates or overwrites the own property \<open>k\<close>, except that with
  no own property of that name \<^verbatim>\<open>'__proto__'\<close> is the inherited accessor, whose setter
  ignores a value that is neither an object nor \<^verbatim>\<open>null\<close>.
\<close>

definition users_set ::
  "(identity \<rightharpoonup> socket_id) \<Rightarrow> identity \<Rightarrow> socket_id \<Rightarrow> (identity \<rightharpoonup> socket_id)" where
  "users_set u k c = (if k = ''__proto__'' \<and> u k = None then u else u(k \<mapsto> c))"

fun emit :: "property \<Rightarrow> message \<Rightarrow> effect" where
  "emit (Own c) m = Emit c m"
| "emit (Inherited k) m = EmitInherited k m"

section \<open>Session identifiers\<close>

text \<open>
  \<^verbatim>\<open>`${from}_${to}_${Date.now()}`\<close>: the two identities and the decimal rendering of the
  clock reading, joined by underscores.
\<close>

definition digit :: "nat \<Rightarrow> char" where
  "digit d = ''0123456789'' ! d"

fun dec :: "nat \<Rightarrow> string" where
  "dec n = (if n < 10 then [digit n] else dec (n div 10) @ [digit (n mod 10)])"

declare dec.simps [simp del]

definition session_id :: "identity \<Rightarrow> identity \<Rightarrow> nat \<Rightarrow> string" where
  "session_id f t now = f @ ''_'' @ t @ ''_'' @ dec now"

section \<open>The handlers\<close>

text \<open>
  The test \<^verbatim>\<open>sessionId && activeCallSessions[sessionId]\<close> that four handlers apply to
  \<^verbatim>\<open>socket.sessionId\<close>: it yields the id and the record when the link is set, is not the
  empty string, and names a record of the table.
\<close>

definition socket_session :: "state \<Rightarrow> socket_id \<Rightarrow> (string \<times> session) option" where
  "socket_session s c =
     (case sessionId (sockets s c) of
        None \<Rightarrow> None
      | Some sid \<Rightarrow>
          if sid = [] then None
          else (case activeCallSessions s sid of
                  None \<Rightarrow> None
                | Some r \<Rightarrow> Some (sid, r)))"

definition on_register :: "state \<Rightarrow> socket_id \<Rightarrow> identity \<Rightarrow> state \<times> effect list" where
  "on_register s c r =
     (s\<lparr>users := users_set (users s) r c,
        sockets := (sockets s)(c := (sockets s c)\<lparr>role := Some r\<rparr>)\<rparr>, [])"

definition on_call ::
  "state \<Rightarrow> socket_id \<Rightarrow> identity \<Rightarrow> identity \<Rightarrow> payload \<Rightarrow> nat \<Rightarrow> state \<times> effect list" where
  "on_call s c f t offer now =
     (case users_get (users s) t of
        Some dest \<Rightarrow>
          (let sid = session_id f t now in
           (s\<lparr>activeCallSessions :=
                 (activeCallSessions s)(sid \<mapsto> \<lparr>sfrom = f, sto = t, status = Calling\<rparr>),
              sockets := (sockets s)(c := (sockets s c)\<lparr>sessionId := Some sid\<rparr>)\<rparr>,
            [emit dest (IncomingCall f offer), emit dest (CallSessionInfo sid)]))
      | None \<Rightarrow> (s, []))"

definition on_answer ::
  "state \<Rightarrow> socket_id \<Rightarrow> identity \<Rightarrow> identity \<Rightarrow> payload \<Rightarrow> state \<times> effect list" where
  "on_answer s c f t answer =
     (case users_get (users s) t of
        Some dest \<Rightarrow>
          ((case socket_session s c of
              Some (sid, r) \<Rightarrow>
                s\<lparr>activeCallSessions := (activeCallSessions s)(sid \<mapsto> r\<lparr>status := Connected\<rparr>)\<rparr>
            | None \<Rightarrow> s),
           [emit dest (CallAnswered f answer)])
      | None \<Rightarrow> (s, []))"

definition on_ice_candidate ::
  "state \<Rightarrow> socket_id \<Rightarrow> identity \<Rightarrow> identity \<Rightarrow> payload \<Rightarrow> state \<times> effect list" where
  "on_ice_candidate s c f t candidate =
     (case users_get (users s) t of
        Some dest \<Rightarrow> (s, [emit dest (IceCandidate f candidate)])
      | None \<Rightarrow> (s, []))"

definition on_end_call ::
  "state \<Rightarrow> socket_id \<Rightarrow> identity \<Rightarrow> identity \<Rightarrow> state \<times> effect list" where
  "on_end_call s c f t =
     (case users_get (users s) t of
        Some dest \<Rightarrow>
          ((case socket_session s c of
              Some (sid, r) \<Rightarrow> s\<lparr>activeCallSessions := (activeCallSessions s)(sid := None)\<rparr>
            | None \<Rightarrow> s),
           [emit dest (CallEnded f)])
      | None \<Rightarrow> (s, []))"

text \<open>\<^verbatim>\<open>if (users[x]) io.to(users[x]).emit(name, payload)\<close>\<close>

definition emit_if_present :: "state \<Rightarrow> identity \<Rightarrow> message \<Rightarrow> effect list" where
  "emit_if_present s x m =
     (case users_get (users s) x of Some dest \<Rightarrow> [emit dest m] | None \<Rightarrow> [])"

definition on_start_recording_request ::
  "state \<Rightarrow> socket_id \<Rightarrow> identity \<Rightarrow> identity \<Rightarrow> state \<times> effect list" where
  "on_start_recording_request s c f t =
     (case socket_session s c of
        None \<Rightarrow> (s, [Warn (''No active session found for '' @ f @ '' to start recording.'')])
      | Some (sid, r) \<Rightarrow>
          (s, emit_if_present s f (StartRecordingSignal f)
               @ emit_if_present s t (StartRecordingSignal f)))"

definition on_stop_recording_request ::
  "state \<Rightarrow> socket_id \<Rightarrow> identity \<Rightarrow> identity \<Rightarrow> state \<times> effect list" where
  "on_stop_recording_request s c f t =
     (case socket_session s c of
        None \<Rightarrow> (s, [Warn (''No active session found for '' @ f @ '' to stop recording.'')])
      | Some (sid, r) \<Rightarrow>
          (s, emit_if_present s f (StopRecordingSignal f)
               @ emit_if_present s t (StopRecordingSignal f)))"

text \<open>
  The \<^verbatim>\<open>for ... in\<close> loop of the disconnect handler deletes every record whose
  \<^verbatim>\<open>from\<close> or \<^verbatim>\<open>to\<close> is the role of the socket; the records it keeps are untouched, so
  the table it leaves does not depend on the order of the visit.
\<close>

definition cleanup_sessions :: "identity \<Rightarrow> (string \<rightharpoonup> session) \<Rightarrow> (string \<rightharpoonup> session)" where
  "cleanup_sessions r tab =
     (\<lambda>sid. case tab sid of
              None \<Rightarrow> None
            | Some x \<Rightarrow> if sfrom x = r \<or> sto x = r then None else Some x)"

definition on_disconnect :: "state \<Rightarrow> socket_id \<Rightarrow> state \<times> effect list" where
  "on_disconnect s c =
     (case role (sockets s c) of
        None \<Rightarrow> (s, [])
      | Some r \<Rightarrow>
          if r \<noteq> [] \<and> users_get (users s) r = Some (Own c)
          then (s\<lparr>users := (users s)(r := None),
                  activeCallSessions := cleanup_sessions r (activeCallSessions s)\<rparr>, [])
          else (s, []))"

section \<open>Dispatch and runs\<close>

fun step :: "state \<Rightarrow> socket_id \<Rightarrow> event \<Rightarrow> state \<times> effect list" where
  "step s c (Register r) = on_register s c r"
| "step s c (Call f t offer now) = on_call s c f t offer now"
| "step s c (Answer f t answer) = on_answer s c f t answer"
| "step s c (Ice f t candidate) = on_ice_candidate s c f t candidate"
| "step s c (EndCall f t) = on_end_call s c f t"
| "step s c (StartRecordingRequest f t) = on_start_recording_request s c f t"
| "step s c (StopRecordingRequest f t) = on_stop_recording_request s c f t"
| "step s c Disconnect = on_disconnect s c"

text \<open>Events are processed one at a time, each on the state the previous one left.\<close>

fun run :: "state \<Rightarrow> (socket_id \<times> event) list \<Rightarrow> state \<times> effect list" where
  "run s [] = (s, [])"
| "run s ((c, e) # es) =
     (case step s c e of (s1, out1) \<Rightarrow>
        (case run s1 es of (s2, out2) \<Rightarrow> (s2, out1 @ out2)))"

text \<open>
  Two classifications of events used below: the \<^verbatim>\<open>call\<close> events, and the \<^verbatim>\<open>call\<close> events
  whose handler computes a given session id.
\<close>

fun is_call :: "event \<Rightarrow> bool" where
  "is_call (Call f t offer now) = True"
| "is_call _ = False"

fun allocates :: "event \<Rightarrow> string \<Rightarrow> bool" where
  "allocates (Call f t offer now) k = (session_id f t now = k)"
| "allocates _ k = False"

section \<open>Scenarios\<close>

text \<open>
  Concrete states reached from the initial state, on which the general results are
  instantiated. Connection 1 registers as \<open>userA\<close>, connection 2 as \<open>userB\<close>.
\<close>

definition registered :: state where
  "registered = fst (run init [(1, Register ''userA''), (2, Register ''userB'')])"

text \<open>\<open>userA\<close> has called \<open>userB\<close> at clock reading 5.\<close>

definition calling_state :: state where
  "calling_state = fst (run registered [(1, Call ''userA'' ''userB'' ''offer'' 5)])"

text \<open>After that call, a third connection registers as \<open>userA\<close> too.\<close>

definition superseded_state :: state where
  "superseded_state = fst (run calling_state [(3, Register ''userA'')])"

text \<open>After that call, the caller ends it.\<close>

definition ended_state :: state where
  "ended_state = fst (run calling_state [(1, EndCall ''userA'' ''userB'')])"

text \<open>Both parties have called each other: \<open>userB\<close> first, at clock reading 3.\<close>

definition cross_state :: state where
  "cross_state = fst (run registered [(2, Call ''userB'' ''userA'' ''offer0'' 3),
                                      (1, Call ''userA'' ''userB'' ''offer'' 5)])"

text \<open>\<open>userA\<close>, alone, calls itself.\<close>

definition self_call_state :: state where
  "self_call_state = fst (run init [(1, Register ''userA''),
                                    (1, Call ''userA'' ''userA'' ''offer'' 5)])"

section \<open>Basic facts\<close>

lemmas handler_defs = on_register_def on_call_def on_answer_def on_ice_candidate_def
  on_end_call_def on_start_recording_request_def on_stop_recording_request_def
  on_disconnect_def socket_session_def emit_if_present_def cleanup_sessions_def Let_def

lemmas lookup_defs = users_get_def users_set_def object_prototype_names_def

lemmas scenario_defs = registered_def calling_state_def superseded_state_def ended_state_def
  cross_state_def self_call_state_def init_def lookup_defs

lemma session_id_5: "session_id ''userA'' ''userB'' 5 = ''userA_userB_5''"
  by (simp add: session_id_def dec.simps digit_def)

lemma session_id_3: "session_id ''userB'' ''userA'' 3 = ''userB_userA_3''"
  by (simp add: session_id_def dec.simps digit_def)

lemma session_id_self: "session_id ''userA'' ''userA'' 5 = ''userA_userA_5''"
  by (simp add: session_id_def dec.simps digit_def)

lemma session_id_not_empty: "session_id f t now \<noteq> []"
  by (simp add: session_id_def)

text \<open>An own property is what a read finds first.\<close>

lemma users_get_own: "u k = Some c \<Longrightarrow> users_get u k = Some (Own c)"
  by (simp add: users_get_def)

text \<open>
  A session id ends in a decimal digit, and no member of \<^verbatim>\<open>Object.prototype\<close> has a name
  that does: reading \<^verbatim>\<open>activeCallSessions[sessionId]\<close> never reaches the prototype.
\<close>

lemma dec_not_empty: "dec n \<noteq> []"
  by (subst dec.simps) simp

lemma digit_is_digit: "d < 10 \<Longrightarrow> digit d \<in> set ''0123456789''"
  unfolding digit_def by (rule nth_mem) simp

lemma last_dec: "last (dec n) \<in> set ''0123456789''"
proof (cases "n < 10")
  case True
  then have "dec n = [digit n]" by (subst dec.simps) simp
  with True show ?thesis using digit_is_digit [of n] by simp
next
  case False
  then have "dec n = dec (n div 10) @ [digit (n mod 10)]" by (subst dec.simps) simp
  then show ?thesis using digit_is_digit [of "n mod 10"] by simp
qed

lemma last_session_id: "last (session_id f t now) \<in> set ''0123456789''"
  using last_dec [of now] by (simp add: session_id_def dec_not_empty)

lemma session_id_not_inherited: "session_id f t now \<notin> set object_prototype_names"
proof
  assume "session_id f t now \<in> set object_prototype_names"
  then have "last (session_id f t now) \<in> last ` set object_prototype_names"
    by (rule imageI)
  then show False
    using last_session_id [of f t now] by (auto simp: object_prototype_names_def)
qed

text \<open>After a call that is not dropped, the link of the calling socket resolves to the new record.\<close>

lemma call_links_caller:
  assumes "users s t = Some dest"
  shows "socket_session (fst (on_call s c f t offer now)) c
           = Some (session_id f t now, \<lparr>sfrom = f, sto = t, status = Calling\<rparr>)"
  using assms
  by (simp add: on_call_def socket_session_def Let_def session_id_not_empty users_get_own)

text \<open>Deleting a record makes the links to it dangle and leaves the other links alone.\<close>

lemma socket_session_deleted:
  "socket_session (s\<lparr>activeCallSessions := (activeCallSessions s)(sid := None)\<rparr>) c =
     (case socket_session s c of
        None \<Rightarrow> None
      | Some (sid', r) \<Rightarrow> if sid' = sid then None else Some (sid', r))"
  by (simp add: socket_session_def split: option.splits)

lemma unlinked_socket_resolves_nothing:
  assumes "sessionId (sockets s c) = None"
  shows "socket_session s c = None"
  using assms by (simp add: socket_session_def)

lemma connect_connected: "status r \<noteq> Calling \<Longrightarrow> r\<lparr>status := Connected\<rparr> = r"
  by (cases r; cases "status r") auto

lemma fst_run_Cons: "fst (run s ((c, e) # es)) = fst (run (fst (step s c e)) es)"
  by (simp split: prod.splits)

text \<open>Only a \<^verbatim>\<open>call\<close> event, and only on the socket that sent it, changes a session link.\<close>

lemma step_link_unchanged:
  "c \<noteq> cb \<or> \<not> is_call e
   \<Longrightarrow> sessionId (sockets (fst (step s c e)) cb) = sessionId (sockets s cb)"
  by (cases e) (auto simp: handler_defs split: option.splits)

lemma run_link_unchanged:
  "\<forall>(c, e) \<in> set es. c = cb \<longrightarrow> \<not> is_call e
   \<Longrightarrow> sessionId (sockets (fst (run s es)) cb) = sessionId (sockets s cb)"
proof (induction es arbitrary: s)
  case Nil
  then show ?case by simp
next
  case (Cons x es)
  obtain c e where x: "x = (c, e)" by (cases x)
  from Cons.prems x have "c \<noteq> cb \<or> \<not> is_call e" by auto
  then have "sessionId (sockets (fst (step s c e)) cb) = sessionId (sockets s cb)"
    by (rule step_link_unchanged)
  moreover from Cons.prems have "\<forall>(c, e) \<in> set es. c = cb \<longrightarrow> \<not> is_call e" by simp
  then have "sessionId (sockets (fst (run (fst (step s c e)) es)) cb)
             = sessionId (sockets (fst (step s c e)) cb)"
    by (rule Cons.IH)
  ultimately show ?case
    using x by (simp only: fst_run_Cons)
qed

text \<open>
  What one event does to the entry of the session table under an id \<open>k\<close>. An event that
  does not allocate \<open>k\<close> deletes the entry, leaves it as it is, or moves its status from
  \<open>calling\<close> to \<open>connected\<close>. A \<^verbatim>\<open>call\<close> that allocates \<open>k\<close> either is dropped (target
  absent) or stores a new record in status \<open>calling\<close> under \<open>k\<close>.
\<close>

lemma step_entry:
  assumes "\<not> allocates e k"
  shows "activeCallSessions (fst (step s c e)) k = None
       \<or> activeCallSessions (fst (step s c e)) k = activeCallSessions s k
       \<or> (\<exists>r. activeCallSessions s k = Some r \<and> status r = Calling
              \<and> activeCallSessions (fst (step s c e)) k = Some (r\<lparr>status := Connected\<rparr>))"
  using assms
  by (cases e) (auto simp: handler_defs connect_connected split: option.splits if_splits)

lemma step_entry_allocated:
  assumes "allocates e k"
  shows "activeCallSessions (fst (step s c e)) k = activeCallSessions s k
       \<or> (\<exists>f t. activeCallSessions (fst (step s c e)) k
                  = Some \<lparr>sfrom = f, sto = t, status = Calling\<rparr>)"
  using assms
  by (cases e) (auto simp: handler_defs split: option.splits)

section \<open>Registration\<close>

text \<open>
  For every identity but \<^verbatim>\<open>'__proto__'\<close> registration is last-writer-wins: the second
  registration overwrites the first, and a read finds the second connection. The handler
  has no failing or rejecting branch and emits nothing.
\<close>

lemma register_overwrites_own_key:
  assumes "A \<noteq> ''__proto__''"
  shows "users_get (users (fst (on_register (fst (on_register s connA A)) connB A))) A
           = Some (Own connB)
       \<and> snd (on_register s connB A) = []"
  using assms by (simp add: on_register_def users_set_def users_get_def)

text \<open>
  C5. Registration of the identity \<^verbatim>\<open>'__proto__'\<close>, first on connection 1 and then on
  connection 2, from the initial state: neither assignment \<^verbatim>\<open>users[role] = socket.id\<close>
  stores anything, \<^verbatim>\<open>users\<close> has no own key afterwards, and looking the identity up
  yields the inherited member of \<^verbatim>\<open>Object.prototype\<close>, not connection 2. The socket
  itself records the role.
\<close>

theorem register_proto_stores_nothing:
  "users (fst (run init [(1, Register ''__proto__''), (2, Register ''__proto__'')]))
     = Map.empty
   \<and> users_get (users (fst (run init [(1, Register ''__proto__''),
                                       (2, Register ''__proto__'')]))) ''__proto__''
     = Some (Inherited ''__proto__'')
   \<and> role (sockets (fst (run init [(1, Register ''__proto__''),
                                    (2, Register ''__proto__'')])) 2) = Some ''__proto__''"
  by (simp add: init_def lookup_defs handler_defs)

section \<open>Placing a call\<close>

text \<open>
  In every state where \<open>B\<close> is an own key of \<^verbatim>\<open>users\<close>, the handler of
  \<open>call(A, B, offer)\<close> writes exactly one entry of the session table, the one under the id
  it computes, with initiator \<open>A\<close>, target \<open>B\<close> and status \<open>calling\<close>; its outbound messages
  are exactly one \<open>incoming-call\<close> carrying \<open>A\<close> and the offer and one \<open>call-session-info\<close>
  carrying that id, both to the connection registered for \<open>B\<close>. When the id is not yet in
  the table, the table gains exactly that one key.
\<close>

lemma call_writes_record_and_notifies_target:
  assumes "users s B = Some connB"
  shows "snd (on_call s c A B offer now) =
           [Emit connB (IncomingCall A offer), Emit connB (CallSessionInfo (session_id A B now))]
       \<and> activeCallSessions (fst (on_call s c A B offer now)) =
           (activeCallSessions s)(session_id A B now \<mapsto> \<lparr>sfrom = A, sto = B, status = Calling\<rparr>)
       \<and> users (fst (on_call s c A B offer now)) = users s"
  using assms by (simp add: on_call_def Let_def users_get_own)

lemma call_with_fresh_id_adds_one_record:
  assumes "users s B = Some connB" and "activeCallSessions s (session_id A B now) = None"
  shows "dom (activeCallSessions (fst (on_call s c A B offer now)))
           = insert (session_id A B now) (dom (activeCallSessions s))
       \<and> session_id A B now \<notin> dom (activeCallSessions s)"
  using assms call_writes_record_and_notifies_target [OF assms(1), of c A offer now]
  by (simp add: domIff)

text \<open>
  C1. In the state where \<open>userA\<close> has called \<open>userB\<close> at clock reading 5, \<open>userB\<close> is
  registered (on connection 2) and the table holds one record. A further
  \<open>call(userA, userB, offer2)\<close> handled at the same clock reading sends the
  \<open>incoming-call\<close> and the \<open>call-session-info\<close> to connection 2, but creates no new
  session record: the handler computes the id that is already in the table, and the table
  holds the same single key afterwards.
\<close>

theorem repeated_call_creates_no_new_record:
  "users_get (users calling_state) ''userB'' = Some (Own 2)
   \<and> dom (activeCallSessions calling_state) = {''userA_userB_5''}
   \<and> dom (activeCallSessions (fst (on_call calling_state 1 ''userA'' ''userB'' ''offer2'' 5)))
     = {''userA_userB_5''}
   \<and> snd (on_call calling_state 1 ''userA'' ''userB'' ''offer2'' 5)
     = [Emit 2 (IncomingCall ''userA'' ''offer2''), Emit 2 (CallSessionInfo ''userA_userB_5'')]"
  by (simp add: scenario_defs handler_defs session_id_5)

section \<open>Answering\<close>

text \<open>
  C2. The standard two-party flow, run from the initial state: \<open>userA\<close> registers on
  connection 1, \<open>userB\<close> on connection 2, connection 1 calls \<open>userB\<close>, connection 2 answers.
  The answer is relayed to connection 1, but the session record keeps status \<open>calling\<close>:
  the answer handler looks the session up through the link of the answering socket, and
  only the calling socket was given one.
\<close>

theorem answer_from_target_leaves_session_calling:
  "activeCallSessions
     (fst (run init [(1, Register ''userA''), (2, Register ''userB''),
                     (1, Call ''userA'' ''userB'' ''offer'' 5),
                     (2, Answer ''userB'' ''userA'' ''answer'')])) ''userA_userB_5''
     = Some \<lparr>sfrom = ''userA'', sto = ''userB'', status = Calling\<rparr>
   \<and> snd (run init [(1, Register ''userA''), (2, Register ''userB''),
                     (1, Call ''userA'' ''userB'' ''offer'' 5),
                     (2, Answer ''userB'' ''userA'' ''answer'')])
     = [Emit 2 (IncomingCall ''userA'' ''offer''), Emit 2 (CallSessionInfo ''userA_userB_5''),
        Emit 1 (CallAnswered ''userB'' ''answer'')]"
  by (simp add: init_def lookup_defs handler_defs session_id_5)

section \<open>Ending a call\<close>

text \<open>
  C4, as stated, at a concrete input: in the state where \<open>userA\<close> has called \<open>userB\<close>, two
  consecutive \<open>end-call\<close> events from the caller send two \<open>call-ended\<close> notices, one event
  sends one.
\<close>

theorem end_call_twice_relays_twice:
  "snd (run calling_state [(1, EndCall ''userA'' ''userB''), (1, EndCall ''userA'' ''userB'')])
     = [Emit 2 (CallEnded ''userA''), Emit 2 (CallEnded ''userA'')]
   \<and> snd (run calling_state [(1, EndCall ''userA'' ''userB'')]) = [Emit 2 (CallEnded ''userA'')]
   \<and> snd (run calling_state [(1, EndCall ''userA'' ''userB''), (1, EndCall ''userA'' ''userB'')])
     \<noteq> snd (run calling_state [(1, EndCall ''userA'' ''userB'')])"
  by (simp add: scenario_defs handler_defs session_id_5)

text \<open>
  C4, amended. \<open>end-call\<close> is idempotent on the state: a second consecutive \<open>end-call\<close> for
  the same pair from the same connection leaves the state exactly as the first one left
  it. It is not silent: whenever the target is registered it relays the \<open>call-ended\<close>
  notice again (and whenever \<^verbatim>\<open>users[to]\<close> reads an inherited member, it emits again to
  that member, which reaches no socket); with the target absent it emits nothing.
\<close>

theorem end_call_state_idempotent:
  "on_end_call (fst (on_end_call s c f t)) c f t =
     (fst (on_end_call s c f t),
      case users_get (users s) t of Some dest \<Rightarrow> [emit dest (CallEnded f)] | None \<Rightarrow> [])
   \<and> (case users s t of
         Some dest \<Rightarrow>
           snd (on_end_call (fst (on_end_call s c f t)) c f t) = [Emit dest (CallEnded f)]
       | None \<Rightarrow>
           t \<in> set object_prototype_names
           \<or> snd (on_end_call (fst (on_end_call s c f t)) c f t) = [])"
  by (simp add: on_end_call_def socket_session_deleted users_get_def split: option.splits)

section \<open>Recording requests\<close>

text \<open>
  C7. When the sending connection has no active session (its link is unset, or empty, or
  names no record of the table), \<open>start-recording-request\<close> and
  \<open>stop-recording-request\<close> change no state and their only effect is the warning: no
  recording signal is sent to either party. The handlers contain no call to the media
  relay at all, so none is issued.
\<close>

theorem recording_request_without_session_rejected:
  assumes "\<forall>sid. sessionId (sockets s c) = Some sid \<longrightarrow>
                 sid = [] \<or> activeCallSessions s sid = None"
  shows "on_start_recording_request s c f t =
           (s, [Warn (''No active session found for '' @ f @ '' to start recording.'')])
       \<and> on_stop_recording_request s c f t =
           (s, [Warn (''No active session found for '' @ f @ '' to stop recording.'')])"
proof -
  have "socket_session s c = None"
    using assms by (auto simp: socket_session_def split: option.splits)
  then show ?thesis
    by (simp add: on_start_recording_request_def on_stop_recording_request_def)
qed

theorem recording_request_without_session_rejected_witness:
  "sessionId (sockets registered 2) = None
   \<and> sessionId (sockets ended_state 1) = Some ''userA_userB_5''
   \<and> activeCallSessions ended_state ''userA_userB_5'' = None
   \<and> on_start_recording_request registered 2 ''userB'' ''userA'' =
        (registered, [Warn ''No active session found for userB to start recording.''])
   \<and> on_stop_recording_request ended_state 1 ''userA'' ''userB'' =
        (ended_state, [Warn ''No active session found for userA to stop recording.''])"
proof -
  have a: "\<forall>sid. sessionId (sockets registered 2) = Some sid \<longrightarrow>
                 sid = [] \<or> activeCallSessions registered sid = None"
    by (simp add: scenario_defs handler_defs)
  have b: "\<forall>sid. sessionId (sockets ended_state 1) = Some sid \<longrightarrow>
                 sid = [] \<or> activeCallSessions ended_state sid = None"
    by (simp add: scenario_defs handler_defs session_id_5)
  have c: "sessionId (sockets ended_state 1) = Some ''userA_userB_5''"
    by (simp add: scenario_defs handler_defs session_id_5)
  have d: "sessionId (sockets registered 2) = None"
    by (simp add: scenario_defs handler_defs)
  have e: "activeCallSessions ended_state ''userA_userB_5'' = None"
    by (simp add: scenario_defs handler_defs session_id_5)
  show ?thesis
    using c d e
      recording_request_without_session_rejected [OF a, of "''userB''" "''userA''"]
      recording_request_without_session_rejected [OF b, of "''userA''" "''userB''"]
    by simp
qed

section \<open>Disconnecting\<close>

text \<open>
  C10. When a connection disconnects after its identity has been registered again by
  another connection, so that \<open>users\<close> maps the identity to that other connection, the
  disconnect handler changes nothing: the presence entry still names the newer connection
  and every session record, also those naming the identity, stays as it was. The session
  clean-up sits inside the same guard as the de-registration.
\<close>

theorem stale_disconnect_changes_nothing:
  assumes "role (sockets s c) = Some r" and "users s r = Some c'" and "c' \<noteq> c"
  shows "on_disconnect s c = (s, [])"
  using assms by (simp add: on_disconnect_def users_get_def)

theorem stale_disconnect_changes_nothing_witness:
  "role (sockets superseded_state 1) = Some ''userA''
   \<and> users superseded_state ''userA'' = Some 3
   \<and> (3::nat) \<noteq> 1
   \<and> activeCallSessions superseded_state ''userA_userB_5'' =
        Some \<lparr>sfrom = ''userA'', sto = ''userB'', status = Calling\<rparr>
   \<and> on_disconnect superseded_state 1 = (superseded_state, [])"
proof -
  have a: "role (sockets superseded_state 1) = Some ''userA''"
    by (simp add: scenario_defs handler_defs)
  have b: "users superseded_state ''userA'' = Some 3"
    by (simp add: scenario_defs handler_defs)
  have c: "(3::nat) \<noteq> 1" by simp
  have d: "activeCallSessions superseded_state ''userA_userB_5'' =
        Some \<lparr>sfrom = ''userA'', sto = ''userB'', status = Calling\<rparr>"
    by (simp add: scenario_defs handler_defs session_id_5)
  show ?thesis
    using a b d stale_disconnect_changes_nothing [OF a b c] by simp
qed

section \<open>Uniqueness of session identifiers\<close>

text \<open>
  C6. Two \<open>call\<close> events for the same pair handled at the same clock reading (the same
  millisecond of \<^verbatim>\<open>Date.now()\<close>): both \<open>call-session-info\<close> messages carry the same id,
  and the session table holds one record, not two; the second call has written over the
  record of the first.
\<close>

theorem repeated_call_same_millisecond_reuses_id:
  "snd (run registered [(1, Call ''userA'' ''userB'' ''offer1'' 5),
                        (1, Call ''userA'' ''userB'' ''offer2'' 5)])
     = [Emit 2 (IncomingCall ''userA'' ''offer1''), Emit 2 (CallSessionInfo ''userA_userB_5''),
        Emit 2 (IncomingCall ''userA'' ''offer2''), Emit 2 (CallSessionInfo ''userA_userB_5'')]
   \<and> dom (activeCallSessions
            (fst (run registered [(1, Call ''userA'' ''userB'' ''offer1'' 5),
                                  (1, Call ''userA'' ''userB'' ''offer2'' 5)])))
     = {''userA_userB_5''}"
  by (simp add: scenario_defs handler_defs session_id_5)

section \<open>Removal of sessions\<close>

text \<open>
  C3, as stated, at a concrete input: \<open>userA\<close> on connection 1 has called \<open>userB\<close>, then
  connection 3 registers as \<open>userA\<close>. The session exists and connection 1 is linked to it,
  yet the disconnect of connection 1 leaves it in the table.
\<close>

theorem stale_disconnect_keeps_session:
  "activeCallSessions superseded_state ''userA_userB_5''
     = Some \<lparr>sfrom = ''userA'', sto = ''userB'', status = Calling\<rparr>
   \<and> sessionId (sockets superseded_state 1) = Some ''userA_userB_5''
   \<and> activeCallSessions (fst (step superseded_state 1 Disconnect)) ''userA_userB_5''
     = Some \<lparr>sfrom = ''userA'', sto = ''userB'', status = Calling\<rparr>"
  by (simp add: scenario_defs handler_defs session_id_5)

text \<open>
  C3, amended. For a session stored under id \<open>sid\<close>:
  \<^item> an \<open>end-call\<close> sent by the connection whose session link is \<open>sid\<close>, to a target that is
    registered, removes the session;
  \<^item> the disconnect of a connection that still owns the presence entry of its (non-empty)
    identity removes the session when that identity is the session's initiator or target;
  \<^item> once \<open>sid\<close> is absent from the table, an \<open>answer\<close> from a connection linked to \<open>sid\<close>
    changes no state, and a start or stop recording request from it changes no state and
    produces only the warning.
\<close>

theorem session_removed_then_requests_find_nothing:
  "(activeCallSessions s sid = Some r \<and> sessionId (sockets s c) = Some sid \<and> sid \<noteq> []
      \<and> users s t = Some dest
      \<longrightarrow> activeCallSessions (fst (on_end_call s c f t)) sid = None)
   \<and> (activeCallSessions s sid = Some r \<and> role (sockets s c) = Some i \<and> i \<noteq> []
      \<and> users s i = Some c \<and> (sfrom r = i \<or> sto r = i)
      \<longrightarrow> activeCallSessions (fst (on_disconnect s c)) sid = None)
   \<and> (activeCallSessions s' sid = None \<and> sessionId (sockets s' c') = Some sid
      \<longrightarrow> fst (on_answer s' c' f' t' a) = s'
        \<and> on_start_recording_request s' c' f' t' =
            (s', [Warn (''No active session found for '' @ f' @ '' to start recording.'')])
        \<and> on_stop_recording_request s' c' f' t' =
            (s', [Warn (''No active session found for '' @ f' @ '' to stop recording.'')]))"
  by (auto simp: handler_defs users_get_own split: option.splits)

theorem session_removed_then_requests_find_nothing_witness:
  "activeCallSessions calling_state ''userA_userB_5''
     = Some \<lparr>sfrom = ''userA'', sto = ''userB'', status = Calling\<rparr>
   \<and> activeCallSessions (fst (on_end_call calling_state 1 ''userA'' ''userB''))
        ''userA_userB_5'' = None
   \<and> activeCallSessions (fst (on_disconnect calling_state 1)) ''userA_userB_5'' = None
   \<and> activeCallSessions (fst (on_disconnect calling_state 2)) ''userA_userB_5'' = None
   \<and> activeCallSessions ended_state ''userA_userB_5'' = None
   \<and> sessionId (sockets ended_state 1) = Some ''userA_userB_5''
   \<and> fst (on_answer ended_state 1 ''userA'' ''userB'' ''answer'') = ended_state
   \<and> on_start_recording_request ended_state 1 ''userA'' ''userB'' =
        (ended_state, [Warn ''No active session found for userA to start recording.''])
   \<and> on_stop_recording_request ended_state 1 ''userA'' ''userB'' =
        (ended_state, [Warn ''No active session found for userA to stop recording.''])"
proof -
  let ?r = "\<lparr>sfrom = ''userA'', sto = ''userB'', status = Calling\<rparr>"
  have rec: "activeCallSessions calling_state ''userA_userB_5'' = Some ?r"
    by (simp add: scenario_defs handler_defs session_id_5)
  have link: "sessionId (sockets calling_state 1) = Some ''userA_userB_5''"
    by (simp add: scenario_defs handler_defs session_id_5)
  have target: "users calling_state ''userB'' = Some 2"
    by (simp add: scenario_defs handler_defs)
  have caller: "role (sockets calling_state 1) = Some ''userA''
                \<and> users calling_state ''userA'' = Some 1"
    by (simp add: scenario_defs handler_defs)
  have callee: "role (sockets calling_state 2) = Some ''userB''"
    by (simp add: scenario_defs handler_defs)
  have gone: "activeCallSessions ended_state ''userA_userB_5'' = None"
    by (simp add: scenario_defs handler_defs session_id_5)
  have stale: "sessionId (sockets ended_state 1) = Some ''userA_userB_5''"
    by (simp add: scenario_defs handler_defs session_id_5)
  show ?thesis
    using rec link target caller callee gone stale
      session_removed_then_requests_find_nothing
        [where s = calling_state and sid = "''userA_userB_5''" and r = ?r and c = 1
           and t = "''userB''" and dest = 2 and f = "''userA''" and i = "''userA''"
           and s' = ended_state and c' = 1 and f' = "''userA''" and t' = "''userB''"
           and a = "''answer''"]
      session_removed_then_requests_find_nothing
        [where s = calling_state and sid = "''userA_userB_5''" and r = ?r and c = 2
           and i = "''userB''"]
    by simp
qed

section \<open>Which connection is linked to a session\<close>

text \<open>
  C9, as stated, at two concrete inputs. First, both parties have called each other:
  the session created by \<open>call(userA, userB)\<close> exists, and on the connection of \<open>userB\<close>
  (the target of that call) a recording request is accepted, an \<open>answer\<close> moves a session
  to \<open>connected\<close> and an \<open>end-call\<close> deletes a session record, because that connection is
  linked to the session of its own call. Second, \<open>userA\<close> calls itself: the target's
  connection is the calling connection, it is linked to the new session, and an
  \<open>answer\<close> on it moves that very session to \<open>connected\<close>.
\<close>

theorem target_connection_with_own_call_resolves_session:
  "activeCallSessions cross_state ''userA_userB_5''
     = Some \<lparr>sfrom = ''userA'', sto = ''userB'', status = Calling\<rparr>
   \<and> users cross_state ''userB'' = Some 2
   \<and> snd (step cross_state 2 (StartRecordingRequest ''userB'' ''userA''))
     = [Emit 2 (StartRecordingSignal ''userB''), Emit 1 (StartRecordingSignal ''userB'')]
   \<and> activeCallSessions cross_state ''userB_userA_3''
     = Some \<lparr>sfrom = ''userB'', sto = ''userA'', status = Calling\<rparr>
   \<and> activeCallSessions (fst (step cross_state 2 (Answer ''userB'' ''userA'' ''answer'')))
       ''userB_userA_3'' = Some \<lparr>sfrom = ''userB'', sto = ''userA'', status = Connected\<rparr>
   \<and> activeCallSessions (fst (step cross_state 2 (EndCall ''userB'' ''userA'')))
       ''userB_userA_3'' = None
   \<and> users self_call_state ''userA'' = Some 1
   \<and> sessionId (sockets self_call_state 1) = Some ''userA_userA_5''
   \<and> activeCallSessions self_call_state ''userA_userA_5''
     = Some \<lparr>sfrom = ''userA'', sto = ''userA'', status = Calling\<rparr>
   \<and> activeCallSessions (fst (step self_call_state 1 (Answer ''userA'' ''userA'' ''answer'')))
       ''userA_userA_5'' = Some \<lparr>sfrom = ''userA'', sto = ''userA'', status = Connected\<rparr>"
  by (simp add: scenario_defs handler_defs session_id_5 session_id_3 session_id_self)

text \<open>
  C9, amended. The call handler sets the session link of the calling connection and of
  no other connection. When the target's connection is another connection than the
  calling one and has no session link (it has placed no call of its own), then after
  \<open>call(A, B, offer)\<close>, and after any further events among which that connection sends no
  \<open>call\<close>, an \<open>answer\<close> or an \<open>end-call\<close> arriving on it leaves the session table as it is,
  and a start or stop recording request arriving on it is rejected with the warning and
  changes nothing, also while the session created by the call exists.
\<close>

theorem only_calling_connection_is_linked:
  assumes "users s B = Some connB" and "connB \<noteq> connA"
    and "sessionId (sockets s connB) = None"
    and "\<forall>(c, e) \<in> set es. c = connB \<longrightarrow> \<not> is_call e"
  shows "(let s1 = fst (on_call s connA A B offer now); s2 = fst (run s1 es) in
          (\<forall>c'. c' \<noteq> connA \<longrightarrow> sockets s1 c' = sockets s c')
          \<and> sessionId (sockets s1 connA) = Some (session_id A B now)
          \<and> activeCallSessions s1 (session_id A B now)
              = Some \<lparr>sfrom = A, sto = B, status = Calling\<rparr>
          \<and> activeCallSessions (fst (on_answer s2 connB f t a)) = activeCallSessions s2
          \<and> activeCallSessions (fst (on_end_call s2 connB f t)) = activeCallSessions s2
          \<and> on_start_recording_request s2 connB f t =
              (s2, [Warn (''No active session found for '' @ f @ '' to start recording.'')])
          \<and> on_stop_recording_request s2 connB f t =
              (s2, [Warn (''No active session found for '' @ f @ '' to stop recording.'')]))"
proof -
  define s1 where "s1 = fst (on_call s connA A B offer now)"
  define s2 where "s2 = fst (run s1 es)"
  have others: "\<forall>c'. c' \<noteq> connA \<longrightarrow> sockets s1 c' = sockets s c'"
    using assms(1) by (simp add: s1_def on_call_def Let_def users_get_own)
  have link: "sessionId (sockets s1 connA) = Some (session_id A B now)"
    using assms(1) by (simp add: s1_def on_call_def Let_def users_get_own)
  have created: "activeCallSessions s1 (session_id A B now)
                   = Some \<lparr>sfrom = A, sto = B, status = Calling\<rparr>"
    using assms(1) by (simp add: s1_def on_call_def Let_def users_get_own)
  have "sessionId (sockets s1 connB) = None"
    using others assms(2,3) by simp
  then have "sessionId (sockets s2 connB) = None"
    using run_link_unchanged [OF assms(4), of s1] by (simp add: s2_def)
  then have none: "socket_session s2 connB = None"
    by (rule unlinked_socket_resolves_nothing)
  have answer: "activeCallSessions (fst (on_answer s2 connB f t a)) = activeCallSessions s2"
    using none by (simp add: on_answer_def split: option.splits)
  have end_call: "activeCallSessions (fst (on_end_call s2 connB f t)) = activeCallSessions s2"
    using none by (simp add: on_end_call_def split: option.splits)
  have rec: "on_start_recording_request s2 connB f t =
              (s2, [Warn (''No active session found for '' @ f @ '' to start recording.'')])
          \<and> on_stop_recording_request s2 connB f t =
              (s2, [Warn (''No active session found for '' @ f @ '' to stop recording.'')])"
    using none by (simp add: on_start_recording_request_def on_stop_recording_request_def)
  show ?thesis
    using others link created answer end_call rec
    unfolding Let_def s1_def s2_def by blast
qed

theorem only_calling_connection_is_linked_witness:
  "users registered ''userB'' = Some 2
   \<and> (2::nat) \<noteq> 1
   \<and> sessionId (sockets registered 2) = None
   \<and> activeCallSessions (fst (on_call registered 1 ''userA'' ''userB'' ''offer'' 5))
        ''userA_userB_5'' = Some \<lparr>sfrom = ''userA'', sto = ''userB'', status = Calling\<rparr>
   \<and> on_start_recording_request
        (fst (run (fst (on_call registered 1 ''userA'' ''userB'' ''offer'' 5))
                  [(2, Ice ''userB'' ''userA'' ''candidate''),
                   (1, Ice ''userA'' ''userB'' ''candidate'')])) 2 ''userB'' ''userA''
      = (fst (run (fst (on_call registered 1 ''userA'' ''userB'' ''offer'' 5))
                  [(2, Ice ''userB'' ''userA'' ''candidate''),
                   (1, Ice ''userA'' ''userB'' ''candidate'')]),
         [Warn ''No active session found for userB to start recording.''])"
proof -
  have h1: "users registered ''userB'' = Some 2"
    by (simp add: scenario_defs handler_defs)
  have h2: "(2::nat) \<noteq> 1" by simp
  have h3: "sessionId (sockets registered 2) = None"
    by (simp add: scenario_defs handler_defs)
  have h4: "\<forall>(c, e) \<in> set [(2::nat, Ice ''userB'' ''userA'' ''candidate''),
                       (1, Ice ''userA'' ''userB'' ''candidate'')]. c = 2 \<longrightarrow> \<not> is_call e"
    by simp
  show ?thesis
    using h1 h3
      only_calling_connection_is_linked
        [OF h1 h2 h3 h4, of "''userA''" "''offer''" 5 "''userB''" "''userA''" "''answer''"]
    by (simp add: Let_def session_id_5)
qed

section \<open>The life of a session record\<close>

text \<open>
  The status type has the two values \<open>calling\<close> and \<open>connected\<close> and no other. Along every
  sequence of events none of which allocates the id \<open>k\<close>, the entry under \<open>k\<close> is, at the
  end, deleted, or as it was, or moved from \<open>calling\<close> to \<open>connected\<close> with initiator and
  target unchanged; and an id that is absent stays absent.
\<close>

lemma status_advances_while_id_not_reallocated:
  assumes "\<forall>(c, e) \<in> set es. \<not> allocates e k"
  shows "(case activeCallSessions s k of
            None \<Rightarrow> activeCallSessions (fst (run s es)) k = None
          | Some r \<Rightarrow>
              activeCallSessions (fst (run s es)) k = None
            \<or> activeCallSessions (fst (run s es)) k = Some r
            \<or> (status r = Calling
               \<and> activeCallSessions (fst (run s es)) k = Some (r\<lparr>status := Connected\<rparr>)))"
  using assms
proof (induction es arbitrary: s)
  case Nil
  then show ?case by (simp split: option.splits)
next
  case (Cons x es)
  obtain c e where x: "x = (c, e)" by (cases x)
  define s1 where "s1 = fst (step s c e)"
  from Cons.prems x have "\<not> allocates e k" by simp
  then have first: "activeCallSessions s1 k = None
       \<or> activeCallSessions s1 k = activeCallSessions s k
       \<or> (\<exists>r. activeCallSessions s k = Some r \<and> status r = Calling
              \<and> activeCallSessions s1 k = Some (r\<lparr>status := Connected\<rparr>))"
    unfolding s1_def by (rule step_entry)
  from Cons.prems have "\<forall>(c, e) \<in> set es. \<not> allocates e k" by simp
  then have rest: "(case activeCallSessions s1 k of
            None \<Rightarrow> activeCallSessions (fst (run s1 es)) k = None
          | Some r \<Rightarrow>
              activeCallSessions (fst (run s1 es)) k = None
            \<or> activeCallSessions (fst (run s1 es)) k = Some r
            \<or> (status r = Calling
               \<and> activeCallSessions (fst (run s1 es)) k = Some (r\<lparr>status := Connected\<rparr>)))"
    by (rule Cons.IH)
  have run: "fst (run s (x # es)) = fst (run s1 es)"
    using x by (simp only: fst_run_Cons s1_def)
  show ?case
    unfolding run using first rest
    by (auto split: option.splits)
qed

text \<open>
  C8. From the state where \<open>userA\<close> and \<open>userB\<close> are registered: connection 1 calls
  \<open>userB\<close> at clock reading 5, then sends an \<open>answer\<close>, which moves the session to
  \<open>connected\<close>, then calls \<open>userB\<close> again at the same clock reading. The call handler
  computes the same id and writes a record in status \<open>calling\<close> over the connected one:
  under that session id the status has moved from \<open>connected\<close> back to \<open>calling\<close>, and
  the connected record has left the table without being deleted.
\<close>

theorem colliding_call_resets_connected_session:
  "activeCallSessions
     (fst (run registered [(1, Call ''userA'' ''userB'' ''offer'' 5),
                           (1, Answer ''userA'' ''userB'' ''answer'')])) ''userA_userB_5''
     = Some \<lparr>sfrom = ''userA'', sto = ''userB'', status = Connected\<rparr>
   \<and> activeCallSessions
     (fst (run registered [(1, Call ''userA'' ''userB'' ''offer'' 5),
                           (1, Answer ''userA'' ''userB'' ''answer''),
                           (1, Call ''userA'' ''userB'' ''offer2'' 5)])) ''userA_userB_5''
     = Some \<lparr>sfrom = ''userA'', sto = ''userB'', status = Calling\<rparr>"
  by (simp add: scenario_defs handler_defs session_id_5)

end
